theory Spec2Isabelle
  imports Main "HOL-Library.AList"
begin

section \<open>JavaScript values\<close>

text \<open>
  The program is TypeScript, but every guard it contains is a run-time test on a value
  (\<^verbatim>\<open>!initialState\<close>, \<^verbatim>\<open>typeof thing === 'function'\<close>), so the options are modelled
  as dynamically typed values. Numbers are carried as integers plus \<open>NaN\<close>: the program
  only tests them for truthiness. A function value is a reference \<open>Fn f\<close>; two function
  values are the same function exactly when the references are equal. An object is the
  list of its own enumerable properties in enumeration order, with distinct keys; it is
  a plain dictionary with no accessor properties of its own. The module is strict code,
  as every module is.
\<close>

datatype jsval =
    Undefined
  | Null
  | Bool bool
  | Num int
  | NaN
  | Str string
  | Fn nat
  | Obj "(string \<times> jsval) list"
  | Arr "jsval list"

datatype error =
    Error string
  | TypeError

text \<open>
  Calling a function of the caller (a handler, a payload builder) or of the registry may
  change the world outside this module and may throw. A computation therefore maps the
  world before to a result (\<open>Inl\<close> for a thrown error) and the world after.
\<close>

type_synonym ('w, 'a) eff = "'w \<Rightarrow> (error + 'a) \<times> 'w"

type_synonym 'w fenv = "nat \<Rightarrow> jsval list \<Rightarrow> ('w, jsval) eff"

type_synonym 'w TReducer = "jsval \<Rightarrow> jsval \<Rightarrow> ('w, jsval) eff"

type_synonym 'w TCreator = "jsval list \<Rightarrow> ('w, jsval) eff"

type_synonym 'w TMergeReducer = "jsval \<Rightarrow> 'w TReducer \<Rightarrow> ('w, unit) eff"

fun truthy :: "jsval \<Rightarrow> bool" where
  "truthy Undefined = False"
| "truthy Null = False"
| "truthy (Bool b) = b"
| "truthy (Num n) = (n \<noteq> 0)"
| "truthy NaN = False"
| "truthy (Str s) = (s \<noteq> [])"
| "truthy (Fn f) = True"
| "truthy (Obj ps) = True"
| "truthy (Arr xs) = True"

text \<open>\<^verbatim>\<open>a || b\<close>\<close>

definition js_or :: "jsval \<Rightarrow> jsval \<Rightarrow> jsval" where
  "js_or a b = (if truthy a then a else b)"

text \<open>Reading a property of, or destructuring, \<^verbatim>\<open>undefined\<close> or \<^verbatim>\<open>null\<close> throws.\<close>

definition nullish :: "jsval \<Rightarrow> bool" where
  "nullish v = (v = Undefined \<or> v = Null)"

text \<open>
  \<^verbatim>\<open>v.k\<close> for a value that is not nullish, for the property names this program reads
  (\<open>type\<close>, \<open>promise\<close>, the option names, the handler names): none of them is defined on
  a built-in prototype, so only an object can have one.
\<close>

fun getProp :: "jsval \<Rightarrow> string \<Rightarrow> jsval" where
  "getProp (Obj ps) k = (case map_of ps k of Some v \<Rightarrow> v | None \<Rightarrow> Undefined)"
| "getProp v k = Undefined"

definition digit :: "nat \<Rightarrow> char" where
  "digit d = char_of (48 + d)"

fun decimal :: "nat \<Rightarrow> string" where
  "decimal n = (if n < 10 then [digit n] else decimal (n div 10) @ [digit (n mod 10)])"

declare decimal.simps [simp del]

text \<open>
  The own enumerable properties that \<^verbatim>\<open>Object.keys\<close>, \<^verbatim>\<open>Object.entries\<close> and a rest
  pattern see: those of an object, the indices of an array or of a string.
\<close>

fun ownProps :: "jsval \<Rightarrow> (string \<times> jsval) list" where
  "ownProps (Obj ps) = ps"
| "ownProps (Arr xs) = zip (map decimal [0..<length xs]) xs"
| "ownProps (Str s) = zip (map decimal [0..<length s]) (map (\<lambda>c. Str [c]) s)"
| "ownProps v = []"

text \<open>\<^verbatim>\<open>Object.keys(v)\<close>: an array of the keys, a \<^verbatim>\<open>TypeError\<close> on a nullish argument.\<close>

definition objectKeys :: "jsval \<Rightarrow> error + jsval" where
  "objectKeys v = (if nullish v then Inl TypeError else Inr (Arr (map (\<lambda>p. Str (fst p)) (ownProps v))))"

text \<open>
  An object literal \<^verbatim>\<open>{..., ...rest}\<close>: the properties of \<open>rest\<close> are defined one after
  the other on the object built so far; a key that exists already keeps its place and
  takes the new value, a new key is created after the others.
\<close>

definition spread :: "(string \<times> jsval) list \<Rightarrow> (string \<times> jsval) list \<Rightarrow> (string \<times> jsval) list" where
  "spread base rest = foldl (\<lambda>acc p. AList.update (fst p) (snd p) acc) base rest"

text \<open>
  The order in which an object enumerates its own keys: the keys that are array indices
  (the decimal numeral, without leading zeros, of a number below \<open>2\<^sup>3\<^sup>2 - 1\<close>) in
  ascending numeric order, then the other keys in the order of their creation.
\<close>

definition isDigit :: "char \<Rightarrow> bool" where
  "isDigit c = (c \<in> set ''0123456789'')"

definition numberOf :: "string \<Rightarrow> int" where
  "numberOf k = foldl (\<lambda>n c. 10 * n + (of_char c - 48)) 0 k"

definition arrayIndex :: "string \<Rightarrow> int option" where
  "arrayIndex k =
     (if k = [] then None
      else if \<not> list_all isDigit k then None
      else if length k \<noteq> 1 \<and> hd k = CHR ''0'' then None
      else if numberOf k < 4294967295 then Some (numberOf k)
      else None)"

definition indexRank :: "string \<Rightarrow> int" where
  "indexRank k = (case arrayIndex k of Some n \<Rightarrow> n | None \<Rightarrow> 0)"

definition enumerationOrder :: "(string \<times> 'a) list \<Rightarrow> (string \<times> 'a) list" where
  "enumerationOrder ps =
     sort_key (\<lambda>p. indexRank (fst p)) (filter (\<lambda>p. arrayIndex (fst p) \<noteq> None) ps)
       @ filter (\<lambda>p. arrayIndex (fst p) = None) ps"

text \<open>
  \<^verbatim>\<open>res[k] = v\<close> in strict code, for the object \<open>res\<close> that began as \<^verbatim>\<open>{}\<close> and a function
  \<open>v\<close>; \<open>fnProto\<close> says whether the prototype of \<open>res\<close> has become a function. The name
  \<open>__proto__\<close> is the accessor that \<open>res\<close> inherits: assigning to it makes \<open>v\<close> the
  prototype of \<open>res\<close> and creates no property. Below a function, \<open>name\<close> and \<open>length\<close> are
  inherited read-only and \<open>caller\<close> and \<open>arguments\<close> are accessors that throw: assigning to
  them throws. Any other assignment creates or overwrites an own property.
\<close>

definition assignProp :: "(string \<times> 'a) list \<Rightarrow> bool \<Rightarrow> string \<Rightarrow> 'a
    \<Rightarrow> error + (string \<times> 'a) list \<times> bool" where
  "assignProp res fnProto k v =
     (if k = ''__proto__'' then Inr (res, True)
      else if fnProto \<and> k \<in> set [''name'', ''length'', ''caller'', ''arguments''] then Inl TypeError
      else Inr (AList.update k v res, fnProto))"

text \<open>\<^verbatim>\<open>const isFunction = (thing) => typeof thing === 'function'\<close>\<close>

fun isFunction :: "jsval \<Rightarrow> bool" where
  "isFunction (Fn f) = True"
| "isFunction thing = False"

text \<open>\<^verbatim>\<open>v(args)\<close>: calling anything but a function throws.\<close>

fun callFn :: "'w fenv \<Rightarrow> jsval \<Rightarrow> jsval list \<Rightarrow> ('w, jsval) eff" where
  "callFn fenv (Fn f) args w = fenv f args w"
| "callFn fenv v args w = (Inl TypeError, w)"

text \<open>
  \<^verbatim>\<open>v.apply(undefined, args)\<close>: a function is called with \<open>args\<close>; an object is asked for
  a property \<open>apply\<close> of its own, which is called with the two arguments; anything else
  has no \<open>apply\<close>.
\<close>

fun applyFn :: "'w fenv \<Rightarrow> jsval \<Rightarrow> jsval list \<Rightarrow> ('w, jsval) eff" where
  "applyFn fenv (Fn f) args w = fenv f args w"
| "applyFn fenv (Obj ps) args w = callFn fenv (getProp (Obj ps) ''apply'') [Undefined, Arr args] w"
| "applyFn fenv v args w = (Inl TypeError, w)"

section \<open>actionCreator.ts\<close>

text \<open>\<^verbatim>\<open>interface IActionOptions\<close>; an omitted field is \<open>Undefined\<close>.\<close>

record IActionOptions =
  action :: jsval
  async :: jsval
  storeKey :: jsval
  handlers :: jsval
  handler :: jsval
  initialState :: jsval

text \<open>
  \<^verbatim>\<open>interface ICreateActionsOptions\<close>. Its fields \<open>initialState\<close> and \<open>storeKey\<close> carry the
  names \<open>createActions\<close> binds them to.
\<close>

record ICreateActionsOptions =
  actions :: jsval
  globalInitialState :: jsval
  globalStoreKey :: jsval

subsection \<open>checkAsyncHandlers (lines 128-143)\<close>

definition errMessage :: "string \<Rightarrow> string" where
  "errMessage fnName = ''Expected that the '' @ fnName @ '' will be a function, and will returns new state''"

definition checkAsyncHandlers :: "jsval \<Rightarrow> error + unit" where
  "checkAsyncHandlers hs =
     (if nullish hs then Inl TypeError
      else let onWait = getProp hs ''onWait'';
               onSuccess = getProp hs ''onSuccess'';
               onFail = getProp hs ''onFail''
           in if \<not> isFunction onWait then Inl (Error (errMessage ''onWait''))
              else if \<not> isFunction onSuccess then Inl (Error (errMessage ''onSuccess''))
              else if \<not> isFunction onFail then Inl (Error (errMessage ''onFail''))
              else Inr ())"

subsection \<open>createAction (lines 40-99)\<close>

definition WAIT :: "string \<Rightarrow> string" where
  "WAIT name = ''WAIT@'' @ name"

definition SUCCESS :: "string \<Rightarrow> string" where
  "SUCCESS name = ''SUCCESS@'' @ name"

definition FAIL :: "string \<Rightarrow> string" where
  "FAIL name = ''FAIL@'' @ name"

text \<open>
  The reducer closure of lines 58-69. The default parameter replaces an \<open>Undefined\<close>
  state by the initial state; \<^verbatim>\<open>switch\<close> compares with \<^verbatim>\<open>===\<close>, first match first.
\<close>

definition asyncReducer :: "'w fenv \<Rightarrow> string \<Rightarrow> jsval \<Rightarrow> jsval \<Rightarrow> 'w TReducer" where
  "asyncReducer fenv name hs initState state0 act w =
     (let state = (if state0 = Undefined then initState else state0)
      in if nullish act then (Inl TypeError, w)
         else if getProp act ''type'' = Str (WAIT name)
           then callFn fenv (getProp hs ''onWait'') [state, act] w
         else if getProp act ''type'' = Str (SUCCESS name)
           then callFn fenv (getProp hs ''onSuccess'') [state, act] w
         else if getProp act ''type'' = Str (FAIL name)
           then callFn fenv (getProp hs ''onFail'') [state, act] w
         else (Inr state, w))"

text \<open>The reducer closure of line 78.\<close>

definition syncReducer :: "'w fenv \<Rightarrow> string \<Rightarrow> jsval \<Rightarrow> jsval \<Rightarrow> 'w TReducer" where
  "syncReducer fenv name h initState state0 act w =
     (let state = (if state0 = Undefined then initState else state0)
      in if nullish act then (Inl TypeError, w)
         else if getProp act ''type'' = Str name then callFn fenv h [state, act] w
         else (Inr state, w))"

text \<open>
  The returned closure of lines 83-98. It captures \<open>name\<close>, \<open>action\<close> and \<open>async\<close> of the
  registration.
\<close>

definition creator :: "'w fenv \<Rightarrow> string \<Rightarrow> jsval \<Rightarrow> jsval \<Rightarrow> 'w TCreator" where
  "creator fenv name act asyn args w =
     (case applyFn fenv act args w of
        (Inl e, w') \<Rightarrow> (Inl e, w')
      | (Inr r, w') \<Rightarrow>
          if nullish r then (Inl TypeError, w')
          else let promise = getProp r ''promise'';
                   actionPayload = filter (\<lambda>p. fst p \<noteq> ''promise'' \<and> fst p \<noteq> ''type'') (ownProps r)
               in if truthy asyn then
                    if \<not> isFunction promise
                    then (Inl (Error (''Async action '' @ name @ '' should return promise property of Function type'')), w')
                    else (Inr (Obj (enumerationOrder
                                 (spread [(''types'', Arr [Str (WAIT name), Str (SUCCESS name), Str (FAIL name)]),
                                          (''promise'', promise)] actionPayload))), w')
                  else (Inr (Obj (enumerationOrder (spread [(''type'', Str name)] actionPayload))), w'))"

text \<open>
  Line 81 and the \<^verbatim>\<open>return\<close>: the reducer is handed to the registry, whose
  \<open>mergeReducer\<close> lives in another module and is a parameter here; if it throws, so does
  the registration.
\<close>

definition register :: "'w TMergeReducer \<Rightarrow> jsval \<Rightarrow> 'w TReducer \<Rightarrow> 'w TCreator \<Rightarrow> ('w, 'w TCreator) eff" where
  "register mergeReducer key reducer c w =
     (case mergeReducer key reducer w of
        (Inl e, w') \<Rightarrow> (Inl e, w')
      | (Inr u, w') \<Rightarrow> (Inr c, w'))"

definition createAction :: "'w TMergeReducer \<Rightarrow> 'w fenv \<Rightarrow> string \<Rightarrow> IActionOptions \<Rightarrow> ('w, 'w TCreator) eff" where
  "createAction mergeReducer fenv name options w =
     (if \<not> truthy (initialState options)
        then (Inl (Error ''Initial state should not be null or undefined''), w)
      else if \<not> truthy (storeKey options)
        then (Inl (Error (''Store key at action '' @ name @ '' not defined'')), w)
      else if truthy (async options) \<and> truthy (handlers options) then
        (case checkAsyncHandlers (handlers options) of
           Inl e \<Rightarrow> (Inl e, w)
         | Inr u \<Rightarrow>
             register mergeReducer (storeKey options)
               (asyncReducer fenv name (handlers options) (initialState options))
               (creator fenv name (action options) (async options)) w)
      else if truthy (async options) \<and> \<not> truthy (handlers options)
        then (Inl (Error (''Expected handlers in async action '' @ name)), w)
      else if \<not> isFunction (handler options)
        then (Inl (Error (''Expected that synchronous action '' @ name
                 @ '' handler will be a function, and it will returns new state'')), w)
      else register mergeReducer (storeKey options)
             (syncReducer fenv name (handler options) (initialState options))
             (creator fenv name (action options) (async options)) w)"

subsection \<open>createActions (lines 101-126)\<close>

text \<open>The object literal of lines 116-123, from the destructured entry and the globals.\<close>

definition entryOptions :: "jsval \<Rightarrow> jsval \<Rightarrow> jsval \<Rightarrow> IActionOptions" where
  "entryOptions gInitialState gStoreKey actionOptions =
     (let optionAsync = getProp actionOptions ''async'';
          hs = getProp actionOptions ''handlers''
      in \<lparr> action = getProp actionOptions ''action'',
           async = js_or optionAsync (Bool (truthy hs)),
           storeKey = js_or (getProp actionOptions ''storeKey'') gStoreKey,
           handlers = hs,
           handler = getProp actionOptions ''handler'',
           initialState = js_or (getProp actionOptions ''initialState'') gInitialState \<rparr>)"

text \<open>
  The \<^verbatim>\<open>reduce\<close> over \<^verbatim>\<open>Object.entries(actions)\<close>, with the callback of lines 106-125
  inlined: destructuring a nullish entry throws, \<open>res[actionName]\<close> is assigned the creator,
  an error ends the loop with the registrations made so far left in the world. The
  accumulator \<open>res\<close> is given by its own properties and by whether its prototype has
  become a function; the mapping returned is given by its own properties.
\<close>

fun reduceEntries :: "'w TMergeReducer \<Rightarrow> 'w fenv \<Rightarrow> jsval \<Rightarrow> jsval \<Rightarrow> (string \<times> jsval) list
    \<Rightarrow> (string \<times> 'w TCreator) list \<Rightarrow> bool \<Rightarrow> ('w, (string \<times> 'w TCreator) list) eff" where
  "reduceEntries mergeReducer fenv gi gk [] res fnProto w = (Inr res, w)"
| "reduceEntries mergeReducer fenv gi gk ((actionName, actionOptions) # rest) res fnProto w =
     (if nullish actionOptions then (Inl TypeError, w)
      else case createAction mergeReducer fenv actionName (entryOptions gi gk actionOptions) w of
             (Inl e, w') \<Rightarrow> (Inl e, w')
           | (Inr c, w') \<Rightarrow>
               (case assignProp res fnProto actionName c of
                  Inl e \<Rightarrow> (Inl e, w')
                | Inr (res', fnProto') \<Rightarrow>
                    reduceEntries mergeReducer fenv gi gk rest res' fnProto' w'))"

definition createActions :: "'w TMergeReducer \<Rightarrow> 'w fenv \<Rightarrow> ICreateActionsOptions
    \<Rightarrow> ('w, (string \<times> 'w TCreator) list) eff" where
  "createActions mergeReducer fenv options w =
     (case objectKeys (actions options) of
        Inl e \<Rightarrow> (Inl e, w)
      | Inr ks \<Rightarrow>
          if \<not> truthy ks then (Inl (Error ''No any action passed''), w)
          else reduceEntries mergeReducer fenv (globalInitialState options) (globalStoreKey options)
                 (ownProps (actions options)) [] False w)"

section \<open>A world that records calls\<close>

text \<open>
  For concrete runs: the world is the list of calls made so far, the registry accepts
  every reducer, and the functions of the caller return fixed objects. Function \<open>0\<close> is a
  payload builder whose result carries a function \<open>promise\<close> and a \<open>type\<close> of its own,
  function \<open>4\<close> a builder whose \<open>promise\<close> is a string, function \<open>6\<close> a builder that
  returns a \<open>types\<close> field next to its \<open>promise\<close>; the others serve as handlers. The
  registry \<open>probingMerge s a\<close> runs the reducer it is handed once, on the state \<open>s\<close> and
  the action \<open>a\<close>, and records what it returned.
  \<open>batchOptions\<close> is a batch of an asynchronous entry that relies on the globals and a
  synchronous one with a store key and an initial state of its own; \<open>falsyEntry\<close> is an
  entry whose own store key and initial state are falsy; \<open>protoBatch\<close> is a batch with an
  own key \<open>__proto__\<close> and an entry whose own store key is the empty string.
\<close>

datatype event =
    Merged jsval
  | Called nat "jsval list"
  | Returned "error + jsval"

definition recordingMerge :: "event list TMergeReducer" where
  "recordingMerge key reducer w = (Inr (), w @ [Merged key])"

definition probingMerge :: "jsval \<Rightarrow> jsval \<Rightarrow> event list TMergeReducer" where
  "probingMerge s a key reducer w =
     (case reducer s a (w @ [Merged key]) of (r, w') \<Rightarrow> (Inr (), w' @ [Returned r]))"

definition recordingFenv :: "event list fenv" where
  "recordingFenv f args w =
     (Inr (if f = 0 then Obj [(''promise'', Fn 9), (''type'', Str ''mine''), (''id'', Num 7)]
           else if f = 4 then Obj [(''promise'', Str ''not-a-fn'')]
           else if f = 6 then Obj [(''promise'', Fn 9), (''types'', Str ''mine'')]
           else Obj [(''by'', Num (int f))]),
      w @ [Called f args])"

definition asyncOptions :: IActionOptions where
  "asyncOptions =
     \<lparr> action = Fn 0, async = Bool True, storeKey = Str ''users'',
       handlers = Obj [(''onWait'', Fn 1), (''onSuccess'', Fn 2), (''onFail'', Fn 3)],
       handler = Undefined, initialState = Obj [(''list'', Arr [])] \<rparr>"

definition syncOptions :: IActionOptions where
  "syncOptions =
     \<lparr> action = Fn 0, async = Undefined, storeKey = Str ''users'',
       handlers = Undefined, handler = Fn 5, initialState = Obj [(''list'', Arr [])] \<rparr>"

definition batchOptions :: ICreateActionsOptions where
  "batchOptions =
     \<lparr> actions = Obj
         [(''load'', Obj [(''action'', Fn 0),
                          (''handlers'', Obj [(''onWait'', Fn 1), (''onSuccess'', Fn 2), (''onFail'', Fn 3)])]),
          (''reset'', Obj [(''action'', Fn 0), (''handler'', Fn 5), (''storeKey'', Str ''ui''),
                           (''initialState'', Obj [(''n'', Num 0)])])],
       globalInitialState = Obj [(''list'', Arr [])],
       globalStoreKey = Str ''users'' \<rparr>"

definition protoBatch :: ICreateActionsOptions where
  "protoBatch =
     \<lparr> actions = Obj
         [(''__proto__'', Obj [(''action'', Fn 0), (''handler'', Fn 5)]),
          (''reset'', Obj [(''action'', Fn 0), (''handler'', Fn 5), (''storeKey'', Str [])])],
       globalInitialState = Obj [(''list'', Arr [])],
       globalStoreKey = Str ''users'' \<rparr>"

definition falsyEntry :: jsval where
  "falsyEntry = Obj [(''action'', Fn 0), (''handler'', Fn 5), (''storeKey'', Str []),
                     (''initialState'', Num 0)]"

section \<open>Object literals\<close>

lemma map_of_rev_distinct:
  "distinct (map fst xs) \<Longrightarrow> map_of (rev xs) = map_of xs"
proof (induction xs)
  case Nil
  then show ?case by simp
next
  case (Cons p xs)
  then have "fst p \<notin> dom (map_of xs)"
    by (simp add: dom_map_of_conv_image_fst)
  with Cons show ?case
    by (cases p) (auto simp: fun_eq_iff map_add_def split: option.splits)
qed

lemma map_of_spread_rev:
  "map_of (spread base rest) = map_of base ++ map_of (rev rest)"
  unfolding spread_def
proof (induction rest arbitrary: base)
  case Nil
  then show ?case by simp
next
  case (Cons p rest)
  show ?case
    by (cases p) (simp add: Cons.IH update_conv' map_add_upd_left fun_eq_iff map_add_def split: option.splits)
qed

lemma map_of_spread:
  "distinct (map fst rest) \<Longrightarrow>
   map_of (spread base rest) k = (case map_of rest k of Some v \<Rightarrow> Some v | None \<Rightarrow> map_of base k)"
  by (simp add: map_of_spread_rev map_add_def map_of_rev_distinct)

lemma distinct_spread:
  "distinct (map fst base) \<Longrightarrow> distinct (map fst (spread base rest))"
  unfolding spread_def
  by (induction rest arbitrary: base) (simp_all add: distinct_update)

lemma set_enumerationOrder: "set (enumerationOrder ps) = set ps"
  by (auto simp: enumerationOrder_def)

lemma distinct_enumerationOrder:
  assumes "distinct (map fst ps)"
  shows "distinct (map fst (enumerationOrder ps))"
proof -
  from assms have d: "distinct ps" and i: "inj_on fst (set ps)"
    by (simp_all add: distinct_map)
  have "distinct (enumerationOrder ps)"
    using d by (auto simp: enumerationOrder_def)
  with i show ?thesis
    by (simp add: distinct_map set_enumerationOrder)
qed

lemma map_of_enumerationOrder:
  "distinct (map fst ps) \<Longrightarrow> map_of (enumerationOrder ps) = map_of ps"
  by (simp add: map_of_inject_set distinct_enumerationOrder set_enumerationOrder)

lemma payload_distinct:
  "distinct (map fst ps) \<Longrightarrow> distinct (map fst (filter P ps))"
  by (simp add: distinct_map_filter)

lemma map_of_payload:
  "map_of (filter (\<lambda>p. fst p \<noteq> ''promise'' \<and> fst p \<noteq> ''type'') ps) k
     = (if k = ''promise'' \<or> k = ''type'' then None else map_of ps k)"
proof -
  have "map_of (filter (\<lambda>p. fst p \<noteq> ''promise'' \<and> fst p \<noteq> ''type'') ps)
          = map_of ps |` {k. k \<noteq> ''promise'' \<and> k \<noteq> ''type''}"
    by (rule map_of_filter)
  then show ?thesis
    by (simp add: restrict_map_def)
qed

text \<open>The value under each key of \<^verbatim>\<open>{...base, ...payload}\<close> for the payload of a creator.\<close>

lemma map_of_literal:
  assumes "distinct (map fst base)" and "distinct (map fst ps)"
  shows "map_of (enumerationOrder
            (spread base (filter (\<lambda>p. fst p \<noteq> ''promise'' \<and> fst p \<noteq> ''type'') ps))) k
         = (if k = ''promise'' \<or> k = ''type'' then map_of base k
            else case map_of ps k of Some v \<Rightarrow> Some v | None \<Rightarrow> map_of base k)"
proof -
  let ?P = "filter (\<lambda>p. fst p \<noteq> ''promise'' \<and> fst p \<noteq> ''type'') ps"
  have "map_of (enumerationOrder (spread base ?P)) = map_of (spread base ?P)"
    using assms(1) by (intro map_of_enumerationOrder distinct_spread)
  moreover have "map_of (spread base ?P) k
      = (case map_of ?P k of Some v \<Rightarrow> Some v | None \<Rightarrow> map_of base k)"
    using assms(2) by (intro map_of_spread payload_distinct)
  ultimately show ?thesis
    by (simp add: map_of_payload)
qed

section \<open>What a registration does\<close>

lemma register_unfold:
  "register mr key R c w = (Inr c', w') \<longleftrightarrow> (c' = c \<and> mr key R w = (Inr (), w'))"
  by (auto simp: register_def split: prod.splits sum.splits)

lemma isFunction_iff: "isFunction v \<longleftrightarrow> (\<exists>f. v = Fn f)"
  by (cases v) simp_all

lemma createAction_async_valid:
  assumes "truthy (initialState options)" and "truthy (storeKey options)"
      and "truthy (async options)"
      and "isFunction (getProp (handlers options) ''onWait'')"
      and "isFunction (getProp (handlers options) ''onSuccess'')"
      and "isFunction (getProp (handlers options) ''onFail'')"
  shows "createAction mr fenv name options w
           = register mr (storeKey options)
               (asyncReducer fenv name (handlers options) (initialState options))
               (creator fenv name (action options) (async options)) w"
proof -
  from assms(4) have t: "truthy (handlers options)"
    by (cases "handlers options") simp_all
  then have "\<not> nullish (handlers options)"
    by (auto simp: nullish_def)
  with assms t show ?thesis
    by (simp add: createAction_def checkAsyncHandlers_def)
qed

lemma createAction_sync_valid:
  assumes "truthy (initialState options)" and "truthy (storeKey options)"
      and "\<not> truthy (async options)" and "isFunction (handler options)"
  shows "createAction mr fenv name options w
           = register mr (storeKey options)
               (syncReducer fenv name (handler options) (initialState options))
               (creator fenv name (action options) (async options)) w"
  using assms by (simp add: createAction_def)

lemma createAction_creator:
  "createAction mr fenv name options w = (Inr c, w') \<Longrightarrow>
     c = creator fenv name (action options) (async options)"
  by (auto simp: createAction_def register_unfold split: if_splits sum.splits)

section \<open>The loop of createActions\<close>

lemma assignProp_plain:
  "k \<noteq> ''__proto__'' \<Longrightarrow> assignProp res False k v = Inr (AList.update k v res, False)"
  by (simp add: assignProp_def)

lemma reduceEntries_Cons_success:
  assumes "reduceEntries mr fenv gi gk ((k, e) # rest) acc False w = (Inr res, w')"
      and "k \<noteq> ''__proto__''"
  obtains c w1 where "\<not> nullish e"
    and "createAction mr fenv k (entryOptions gi gk e) w = (Inr c, w1)"
    and "reduceEntries mr fenv gi gk rest (AList.update k c acc) False w1 = (Inr res, w')"
  using assms by (auto simp: assignProp_plain split: if_splits prod.splits sum.splits)

lemma reduceEntries_append:
  "''__proto__'' \<notin> fst ` set xs \<Longrightarrow>
   reduceEntries mr fenv gi gk (xs @ ys) acc False w =
     (case reduceEntries mr fenv gi gk xs acc False w of
        (Inl e, w1) \<Rightarrow> (Inl e, w1)
      | (Inr r1, w1) \<Rightarrow> reduceEntries mr fenv gi gk ys r1 False w1)"
proof (induction xs arbitrary: acc w)
  case Nil
  then show ?case by simp
next
  case (Cons x xs)
  obtain k e where x: "x = (k, e)" by (cases x)
  from Cons.prems have k: "k \<noteq> ''__proto__''" and xs: "''__proto__'' \<notin> fst ` set xs"
    by (auto simp: x)
  show ?case
    by (simp add: x assignProp_plain [OF k] Cons.IH [OF xs] split: prod.splits sum.splits)
qed

lemma reduceEntries_other:
  "reduceEntries mr fenv gi gk ps acc False w = (Inr res, w') \<Longrightarrow> ''__proto__'' \<notin> fst ` set ps \<Longrightarrow>
     k \<notin> fst ` set ps \<Longrightarrow> map_of res k = map_of acc k"
proof (induction ps arbitrary: acc w)
  case Nil
  then show ?case by simp
next
  case (Cons x ps)
  obtain k' e where x: "x = (k', e)" by (cases x)
  from Cons.prems(2) have k': "k' \<noteq> ''__proto__''" and ps: "''__proto__'' \<notin> fst ` set ps"
    by (auto simp: x)
  from Cons.prems(1) [unfolded x] k' obtain c w1
    where r: "reduceEntries mr fenv gi gk ps (AList.update k' c acc) False w1 = (Inr res, w')"
    by (rule reduceEntries_Cons_success)
  from Cons.prems(3) have "k \<noteq> k'" "k \<notin> fst ` set ps"
    by (auto simp: x)
  with Cons.IH [OF r ps] show ?case
    by (simp add: update_conv')
qed

lemma reduceEntries_keys:
  "reduceEntries mr fenv gi gk ps acc False w = (Inr res, w') \<Longrightarrow> ''__proto__'' \<notin> fst ` set ps \<Longrightarrow>
     distinct (map fst ps) \<Longrightarrow> fst ` set ps \<inter> fst ` set acc = {} \<Longrightarrow>
     map fst res = map fst acc @ map fst ps"
proof (induction ps arbitrary: acc w)
  case Nil
  then show ?case by simp
next
  case (Cons x ps)
  obtain k e where x: "x = (k, e)" by (cases x)
  from Cons.prems(2) have k: "k \<noteq> ''__proto__''" and ps: "''__proto__'' \<notin> fst ` set ps"
    by (auto simp: x)
  from Cons.prems(1) [unfolded x] k obtain c w1
    where r: "reduceEntries mr fenv gi gk ps (AList.update k c acc) False w1 = (Inr res, w')"
    by (rule reduceEntries_Cons_success)
  from Cons.prems(4) have nk: "k \<notin> fst ` set acc"
    by (auto simp: x)
  then have upd: "map fst (AList.update k c acc) = map fst acc @ [k]"
    by (simp add: update_keys)
  have "fst ` set ps \<inter> fst ` set (AList.update k c acc) = {}"
    using Cons.prems(3,4) by (auto simp: x dom_update)
  with Cons.IH [OF r ps] Cons.prems(3) show ?case
    by (simp add: x upd)
qed

lemma reduceEntries_split:
  assumes run: "reduceEntries mr fenv gi gk (pre @ (k, e) # post) [] False w = (Inr res, w')"
      and d: "distinct (map fst (pre @ (k, e) # post))"
      and np: "''__proto__'' \<notin> fst ` set (pre @ (k, e) # post)"
  shows "\<exists>resp w1 w2. reduceEntries mr fenv gi gk pre [] False w = (Inr resp, w1)
           \<and> \<not> nullish e
           \<and> createAction mr fenv k (entryOptions gi gk e) w1
                = (Inr (creator fenv k (getProp e ''action'') (async (entryOptions gi gk e))), w2)
           \<and> map_of res k = Some (creator fenv k (getProp e ''action'') (async (entryOptions gi gk e)))"
proof -
  from np have npre: "''__proto__'' \<notin> fst ` set pre" and k: "k \<noteq> ''__proto__''"
    and npost: "''__proto__'' \<notin> fst ` set post"
    by auto
  from run obtain resp w1 where pre: "reduceEntries mr fenv gi gk pre [] False w = (Inr resp, w1)"
    and rest: "reduceEntries mr fenv gi gk ((k, e) # post) resp False w1 = (Inr res, w')"
    by (auto simp: reduceEntries_append [OF npre] split: prod.splits sum.splits)
  from rest k obtain c w2 where ne: "\<not> nullish e"
    and ca: "createAction mr fenv k (entryOptions gi gk e) w1 = (Inr c, w2)"
    and post: "reduceEntries mr fenv gi gk post (AList.update k c resp) False w2 = (Inr res, w')"
    by (rule reduceEntries_Cons_success)
  have c: "c = creator fenv k (getProp e ''action'') (async (entryOptions gi gk e))"
    using createAction_creator [OF ca] by (simp add: entryOptions_def Let_def)
  from d have "k \<notin> fst ` set post"
    by auto
  from reduceEntries_other [OF post npost this] have "map_of res k = Some c"
    by (simp add: update_conv')
  with pre ne ca c show ?thesis
    by blast
qed

lemma entryOptions_fields:
  "action (entryOptions gi gk e) = getProp e ''action''"
  "handler (entryOptions gi gk e) = getProp e ''handler''"
  "handlers (entryOptions gi gk e) = getProp e ''handlers''"
  "async (entryOptions gi gk e) = js_or (getProp e ''async'') (Bool (truthy (getProp e ''handlers'')))"
  "storeKey (entryOptions gi gk e) = js_or (getProp e ''storeKey'') gk"
  "initialState (entryOptions gi gk e) = js_or (getProp e ''initialState'') gi"
  by (simp_all add: entryOptions_def Let_def)

section \<open>Guards of createAction\<close>

text \<open>
  C6. \<open>createAction\<close> raises, and hands no reducer to the registry (the world is the one
  before the call, whatever \<open>mergeReducer\<close> would do), when \<open>initialState\<close> is omitted or
  otherwise falsy; when \<open>storeKey\<close> is missing or the empty string (the message names the
  action); when \<open>async\<close> is set and there are no handlers; when \<open>async\<close> is set and
  \<open>onWait\<close>, \<open>onSuccess\<close> or \<open>onFail\<close> is not a function (the message names the first
  such handler, in that order); when \<open>async\<close> is not set and \<open>handler\<close> is not a function
  (the message names the action). The guards run in this order, so each message is the
  one raised when the guards before it pass; the last conjunct says that any of the
  defects alone is enough for some error.
\<close>

theorem createAction_rejects:
  "(\<not> truthy (initialState options) \<longrightarrow>
      createAction mr fenv name options w
        = (Inl (Error ''Initial state should not be null or undefined''), w))
   \<and> (truthy (initialState options) \<and> \<not> truthy (storeKey options) \<longrightarrow>
      createAction mr fenv name options w
        = (Inl (Error (''Store key at action '' @ name @ '' not defined'')), w))
   \<and> (truthy (initialState options) \<and> truthy (storeKey options) \<and> truthy (async options)
        \<and> \<not> truthy (handlers options) \<longrightarrow>
      createAction mr fenv name options w
        = (Inl (Error (''Expected handlers in async action '' @ name)), w))
   \<and> (truthy (initialState options) \<and> truthy (storeKey options) \<and> truthy (async options)
        \<and> truthy (handlers options) \<and> \<not> isFunction (getProp (handlers options) ''onWait'') \<longrightarrow>
      createAction mr fenv name options w
        = (Inl (Error ''Expected that the onWait will be a function, and will returns new state''), w))
   \<and> (truthy (initialState options) \<and> truthy (storeKey options) \<and> truthy (async options)
        \<and> truthy (handlers options) \<and> isFunction (getProp (handlers options) ''onWait'')
        \<and> \<not> isFunction (getProp (handlers options) ''onSuccess'') \<longrightarrow>
      createAction mr fenv name options w
        = (Inl (Error ''Expected that the onSuccess will be a function, and will returns new state''), w))
   \<and> (truthy (initialState options) \<and> truthy (storeKey options) \<and> truthy (async options)
        \<and> truthy (handlers options) \<and> isFunction (getProp (handlers options) ''onWait'')
        \<and> isFunction (getProp (handlers options) ''onSuccess'')
        \<and> \<not> isFunction (getProp (handlers options) ''onFail'') \<longrightarrow>
      createAction mr fenv name options w
        = (Inl (Error ''Expected that the onFail will be a function, and will returns new state''), w))
   \<and> (truthy (initialState options) \<and> truthy (storeKey options) \<and> \<not> truthy (async options)
        \<and> \<not> isFunction (handler options) \<longrightarrow>
      createAction mr fenv name options w
        = (Inl (Error (''Expected that synchronous action '' @ name
              @ '' handler will be a function, and it will returns new state'')), w))
   \<and> (\<not> truthy (initialState options) \<or> \<not> truthy (storeKey options)
        \<or> (truthy (async options) \<and>
             (\<not> truthy (handlers options)
              \<or> \<not> isFunction (getProp (handlers options) ''onWait'')
              \<or> \<not> isFunction (getProp (handlers options) ''onSuccess'')
              \<or> \<not> isFunction (getProp (handlers options) ''onFail'')))
        \<or> (\<not> truthy (async options) \<and> \<not> isFunction (handler options)) \<longrightarrow>
      (\<exists>e. createAction mr fenv name options w = (Inl e, w)))"
proof -
  have nn: "truthy (handlers options) \<Longrightarrow> \<not> nullish (handlers options)"
    by (auto simp: nullish_def)
  show ?thesis
    by (auto simp: createAction_def checkAsyncHandlers_def errMessage_def Let_def nn)
qed

theorem createAction_rejects_witness:
  "createAction recordingMerge recordingFenv ''load'' (asyncOptions\<lparr>initialState := Undefined\<rparr>) []
     = (Inl (Error ''Initial state should not be null or undefined''), [])
   \<and> createAction recordingMerge recordingFenv ''load'' (asyncOptions\<lparr>storeKey := Undefined\<rparr>) []
     = (Inl (Error ''Store key at action load not defined''), [])
   \<and> createAction recordingMerge recordingFenv ''load'' (syncOptions\<lparr>storeKey := Str ''''\<rparr>) []
     = (Inl (Error ''Store key at action load not defined''), [])
   \<and> createAction recordingMerge recordingFenv ''load'' (asyncOptions\<lparr>handlers := Undefined\<rparr>) []
     = (Inl (Error ''Expected handlers in async action load''), [])
   \<and> createAction recordingMerge recordingFenv ''load''
        (asyncOptions\<lparr>handlers := Obj [(''onWait'', Num 5), (''onSuccess'', Fn 2), (''onFail'', Fn 3)]\<rparr>) []
     = (Inl (Error ''Expected that the onWait will be a function, and will returns new state''), [])
   \<and> createAction recordingMerge recordingFenv ''load''
        (asyncOptions\<lparr>handlers := Obj [(''onWait'', Fn 1), (''onFail'', Fn 3)]\<rparr>) []
     = (Inl (Error ''Expected that the onSuccess will be a function, and will returns new state''), [])
   \<and> createAction recordingMerge recordingFenv ''load''
        (asyncOptions\<lparr>handlers := Obj [(''onWait'', Fn 1), (''onSuccess'', Fn 2), (''onFail'', Null)]\<rparr>) []
     = (Inl (Error ''Expected that the onFail will be a function, and will returns new state''), [])
   \<and> createAction recordingMerge recordingFenv ''load'' (syncOptions\<lparr>handler := Str ''h''\<rparr>) []
     = (Inl (Error ''Expected that synchronous action load handler will be a function, and it will returns new state''), [])"
  using createAction_rejects [of "asyncOptions\<lparr>initialState := Undefined\<rparr>" recordingMerge recordingFenv "''load''" "[]"]
        createAction_rejects [of "asyncOptions\<lparr>storeKey := Undefined\<rparr>" recordingMerge recordingFenv "''load''" "[]"]
        createAction_rejects [of "syncOptions\<lparr>storeKey := Str ''''\<rparr>" recordingMerge recordingFenv "''load''" "[]"]
        createAction_rejects [of "asyncOptions\<lparr>handlers := Undefined\<rparr>" recordingMerge recordingFenv "''load''" "[]"]
        createAction_rejects [of "asyncOptions\<lparr>handlers := Obj [(''onWait'', Num 5), (''onSuccess'', Fn 2), (''onFail'', Fn 3)]\<rparr>" recordingMerge recordingFenv "''load''" "[]"]
        createAction_rejects [of "asyncOptions\<lparr>handlers := Obj [(''onWait'', Fn 1), (''onFail'', Fn 3)]\<rparr>" recordingMerge recordingFenv "''load''" "[]"]
        createAction_rejects [of "asyncOptions\<lparr>handlers := Obj [(''onWait'', Fn 1), (''onSuccess'', Fn 2), (''onFail'', Null)]\<rparr>" recordingMerge recordingFenv "''load''" "[]"]
        createAction_rejects [of "syncOptions\<lparr>handler := Str ''h''\<rparr>" recordingMerge recordingFenv "''load''" "[]"]
  by (simp add: asyncOptions_def syncOptions_def)

text \<open>
  C8. The initial-state guard is \<^verbatim>\<open>!initialState\<close>: it rejects every falsy value, so
  \<open>0\<close>, the empty string, \<open>false\<close> and \<open>NaN\<close> raise the error that speaks of null or
  undefined although a value is present.
\<close>

theorem createAction_falsy_initialState:
  assumes "initialState options \<in> {Num 0, Str [], Bool False, NaN}"
  shows "createAction mr fenv name options w
           = (Inl (Error ''Initial state should not be null or undefined''), w)"
  using assms by (auto simp: createAction_def)

theorem createAction_falsy_initialState_witness:
  "createAction recordingMerge recordingFenv ''load'' (asyncOptions\<lparr>initialState := Num 0\<rparr>) []
     = (Inl (Error ''Initial state should not be null or undefined''), [])
   \<and> createAction recordingMerge recordingFenv ''load'' (asyncOptions\<lparr>initialState := Str ''''\<rparr>) []
     = (Inl (Error ''Initial state should not be null or undefined''), [])
   \<and> createAction recordingMerge recordingFenv ''load'' (syncOptions\<lparr>initialState := Bool False\<rparr>) []
     = (Inl (Error ''Initial state should not be null or undefined''), [])
   \<and> createAction recordingMerge recordingFenv ''load'' (syncOptions\<lparr>initialState := NaN\<rparr>) []
     = (Inl (Error ''Initial state should not be null or undefined''), [])"
  using createAction_falsy_initialState [of "asyncOptions\<lparr>initialState := Num 0\<rparr>" recordingMerge recordingFenv "''load''" "[]"]
        createAction_falsy_initialState [of "asyncOptions\<lparr>initialState := Str ''''\<rparr>" recordingMerge recordingFenv "''load''" "[]"]
        createAction_falsy_initialState [of "syncOptions\<lparr>initialState := Bool False\<rparr>" recordingMerge recordingFenv "''load''" "[]"]
        createAction_falsy_initialState [of "syncOptions\<lparr>initialState := NaN\<rparr>" recordingMerge recordingFenv "''load''" "[]"]
  by simp

section \<open>Reducers\<close>

text \<open>
  C4. A registration with \<open>async\<close> set, an initial state, a store key and three function
  handlers builds the reducer \<open>R\<close> and hands it to the registry under the store key; it
  returns the creator if the registry accepts and what the registry throws otherwise. On
  an action of type \<open>WAIT@name\<close> (resp. \<open>SUCCESS@name\<close>, \<open>FAIL@name\<close>) \<open>R\<close> is the call of
  \<open>onWait\<close> (resp. \<open>onSuccess\<close>, \<open>onFail\<close>) on the state and the action, result and effect
  on the world included, so no other handler runs; on an action of any other type it
  returns the state and leaves the world alone; an undefined state stands for the initial
  state.
\<close>

theorem async_reducer_dispatch:
  assumes valid: "truthy (initialState options)" "truthy (storeKey options)" "truthy (async options)"
      and hs: "getProp (handlers options) ''onWait'' = Fn hw"
              "getProp (handlers options) ''onSuccess'' = Fn hs"
              "getProp (handlers options) ''onFail'' = Fn hf"
      and R: "R = asyncReducer fenv name (handlers options) (initialState options)"
  shows "createAction mr fenv name options w
           = (case mr (storeKey options) R w of
                (Inl e, w1) \<Rightarrow> (Inl e, w1)
              | (Inr u, w1) \<Rightarrow> (Inr (creator fenv name (action options) (async options)), w1))
     \<and> (\<forall>s a v. s \<noteq> Undefined \<and> \<not> nullish a \<and> getProp a ''type'' = Str (''WAIT@'' @ name)
            \<longrightarrow> R s a v = fenv hw [s, a] v)
     \<and> (\<forall>s a v. s \<noteq> Undefined \<and> \<not> nullish a \<and> getProp a ''type'' = Str (''SUCCESS@'' @ name)
            \<longrightarrow> R s a v = fenv hs [s, a] v)
     \<and> (\<forall>s a v. s \<noteq> Undefined \<and> \<not> nullish a \<and> getProp a ''type'' = Str (''FAIL@'' @ name)
            \<longrightarrow> R s a v = fenv hf [s, a] v)
     \<and> (\<forall>s a v. s \<noteq> Undefined \<and> \<not> nullish a
              \<and> getProp a ''type'' \<noteq> Str (''WAIT@'' @ name)
              \<and> getProp a ''type'' \<noteq> Str (''SUCCESS@'' @ name)
              \<and> getProp a ''type'' \<noteq> Str (''FAIL@'' @ name)
            \<longrightarrow> R s a v = (Inr s, v))
     \<and> (\<forall>a v. R Undefined a v = R (initialState options) a v)"
proof -
  have reg: "createAction mr fenv name options w
           = register mr (storeKey options) R (creator fenv name (action options) (async options)) w"
    unfolding R using valid hs by (intro createAction_async_valid) simp_all
  have i: "initialState options \<noteq> Undefined"
    using valid(1) by auto
  show ?thesis
    using hs i by (simp add: reg register_def R asyncReducer_def WAIT_def SUCCESS_def FAIL_def)
qed

theorem async_reducer_dispatch_witness:
  "createAction recordingMerge recordingFenv ''load'' asyncOptions []
     = (Inr (creator recordingFenv ''load'' (Fn 0) (Bool True)), [Merged (Str ''users'')])
   \<and> createAction (probingMerge (Obj [(''n'', Num 1)]) (Obj [(''type'', Str ''WAIT@load'')]))
        recordingFenv ''load'' asyncOptions []
     = (Inr (creator recordingFenv ''load'' (Fn 0) (Bool True)),
        [Merged (Str ''users''),
         Called 1 [Obj [(''n'', Num 1)], Obj [(''type'', Str ''WAIT@load'')]],
         Returned (Inr (Obj [(''by'', Num 1)]))])
   \<and> createAction (probingMerge (Obj [(''n'', Num 1)]) (Obj [(''type'', Str ''SUCCESS@load'')]))
        recordingFenv ''load'' asyncOptions []
     = (Inr (creator recordingFenv ''load'' (Fn 0) (Bool True)),
        [Merged (Str ''users''),
         Called 2 [Obj [(''n'', Num 1)], Obj [(''type'', Str ''SUCCESS@load'')]],
         Returned (Inr (Obj [(''by'', Num 2)]))])
   \<and> createAction (probingMerge Undefined (Obj [(''type'', Str ''FAIL@load'')]))
        recordingFenv ''load'' asyncOptions []
     = (Inr (creator recordingFenv ''load'' (Fn 0) (Bool True)),
        [Merged (Str ''users''),
         Called 3 [Obj [(''list'', Arr [])], Obj [(''type'', Str ''FAIL@load'')]],
         Returned (Inr (Obj [(''by'', Num 3)]))])
   \<and> createAction (probingMerge (Obj [(''n'', Num 1)]) (Obj [(''type'', Str ''load'')]))
        recordingFenv ''load'' asyncOptions []
     = (Inr (creator recordingFenv ''load'' (Fn 0) (Bool True)),
        [Merged (Str ''users''), Returned (Inr (Obj [(''n'', Num 1)]))])"
proof -
  have v: "truthy (initialState asyncOptions)" "truthy (storeKey asyncOptions)"
      "truthy (async asyncOptions)"
    and h: "getProp (handlers asyncOptions) ''onWait'' = Fn 1"
      "getProp (handlers asyncOptions) ''onSuccess'' = Fn 2"
      "getProp (handlers asyncOptions) ''onFail'' = Fn 3"
    by (simp_all add: asyncOptions_def)
  note t = async_reducer_dispatch [OF v h refl, where fenv = recordingFenv and name = "''load''"]
  show ?thesis
    using t [where mr = recordingMerge and w = "[]"]
      t [where mr = "probingMerge (Obj [(''n'', Num 1)]) (Obj [(''type'', Str ''WAIT@load'')])" and w = "[]"]
      t [where mr = "probingMerge (Obj [(''n'', Num 1)]) (Obj [(''type'', Str ''SUCCESS@load'')])" and w = "[]"]
      t [where mr = "probingMerge Undefined (Obj [(''type'', Str ''FAIL@load'')])" and w = "[]"]
      t [where mr = "probingMerge (Obj [(''n'', Num 1)]) (Obj [(''type'', Str ''load'')])" and w = "[]"]
    by (simp add: asyncOptions_def asyncReducer_def nullish_def recordingFenv_def
          recordingMerge_def probingMerge_def WAIT_def SUCCESS_def FAIL_def)
qed

text \<open>
  C5. A registration without \<open>async\<close>, with an initial state, a store key and a function
  \<open>handler\<close>, builds the reducer \<open>R\<close> and hands it to the registry under the store key; it
  returns the creator if the registry accepts and what the registry throws otherwise. On
  an action whose type is exactly the name, \<open>R\<close> is the call of the handler on the state
  and the action; on any other type it returns the state unchanged; an undefined state
  stands for the initial state.
\<close>

theorem sync_reducer_dispatch:
  assumes valid: "truthy (initialState options)" "truthy (storeKey options)"
                 "\<not> truthy (async options)"
      and h: "handler options = Fn h"
      and R: "R = syncReducer fenv name (handler options) (initialState options)"
  shows "createAction mr fenv name options w
           = (case mr (storeKey options) R w of
                (Inl e, w1) \<Rightarrow> (Inl e, w1)
              | (Inr u, w1) \<Rightarrow> (Inr (creator fenv name (action options) (async options)), w1))
     \<and> (\<forall>s a v. s \<noteq> Undefined \<and> \<not> nullish a \<and> getProp a ''type'' = Str name
            \<longrightarrow> R s a v = fenv h [s, a] v)
     \<and> (\<forall>s a v. s \<noteq> Undefined \<and> \<not> nullish a \<and> getProp a ''type'' \<noteq> Str name
            \<longrightarrow> R s a v = (Inr s, v))
     \<and> (\<forall>a v. R Undefined a v = R (initialState options) a v)"
proof -
  have reg: "createAction mr fenv name options w
           = register mr (storeKey options) R (creator fenv name (action options) (async options)) w"
    unfolding R using valid h by (intro createAction_sync_valid) simp_all
  have i: "initialState options \<noteq> Undefined"
    using valid(1) by auto
  show ?thesis
    using h i by (simp add: reg register_def R syncReducer_def)
qed

theorem sync_reducer_dispatch_witness:
  "createAction recordingMerge recordingFenv ''load'' syncOptions []
     = (Inr (creator recordingFenv ''load'' (Fn 0) Undefined), [Merged (Str ''users'')])
   \<and> createAction (probingMerge (Obj [(''n'', Num 1)]) (Obj [(''type'', Str ''load''), (''id'', Num 7)]))
        recordingFenv ''load'' syncOptions []
     = (Inr (creator recordingFenv ''load'' (Fn 0) Undefined),
        [Merged (Str ''users''),
         Called 5 [Obj [(''n'', Num 1)], Obj [(''type'', Str ''load''), (''id'', Num 7)]],
         Returned (Inr (Obj [(''by'', Num 5)]))])
   \<and> createAction (probingMerge (Obj [(''n'', Num 1)]) (Obj [(''type'', Str ''WAIT@load'')]))
        recordingFenv ''load'' syncOptions []
     = (Inr (creator recordingFenv ''load'' (Fn 0) Undefined),
        [Merged (Str ''users''), Returned (Inr (Obj [(''n'', Num 1)]))])
   \<and> createAction (probingMerge Undefined (Obj [(''type'', Str ''other'')]))
        recordingFenv ''load'' syncOptions []
     = (Inr (creator recordingFenv ''load'' (Fn 0) Undefined),
        [Merged (Str ''users''), Returned (Inr (Obj [(''list'', Arr [])]))])"
proof -
  have v: "truthy (initialState syncOptions)" "truthy (storeKey syncOptions)"
      "\<not> truthy (async syncOptions)"
    and h: "handler syncOptions = Fn 5"
    by (simp_all add: syncOptions_def)
  note t = sync_reducer_dispatch [OF v h refl, where fenv = recordingFenv and name = "''load''"]
  show ?thesis
    using t [where mr = recordingMerge and w = "[]"]
      t [where mr = "probingMerge (Obj [(''n'', Num 1)]) (Obj [(''type'', Str ''load''), (''id'', Num 7)])" and w = "[]"]
      t [where mr = "probingMerge (Obj [(''n'', Num 1)]) (Obj [(''type'', Str ''WAIT@load'')])" and w = "[]"]
      t [where mr = "probingMerge Undefined (Obj [(''type'', Str ''other'')])" and w = "[]"]
    by (simp add: syncOptions_def syncReducer_def nullish_def recordingFenv_def
          recordingMerge_def probingMerge_def)
qed

text \<open>
  C10. In a direct call of \<open>createAction\<close> without \<open>async\<close>, a \<open>handlers\<close> record is
  ignored: the call does what it does without it, whatever the record is; the
  synchronous path is taken, which raises the synchronous-handler error unless
  \<open>handler\<close> is a function; and the reducer handed to the registry calls \<open>handler\<close> or
  nothing, never \<open>onWait\<close>, \<open>onSuccess\<close> or \<open>onFail\<close>.
\<close>

theorem sync_ignores_handlers:
  assumes "\<not> truthy (async options)"
  shows "createAction mr fenv name (options\<lparr>handlers := hs\<rparr>) w = createAction mr fenv name options w
     \<and> (truthy (initialState options) \<and> truthy (storeKey options) \<and> \<not> isFunction (handler options) \<longrightarrow>
          createAction mr fenv name (options\<lparr>handlers := hs\<rparr>) w
            = (Inl (Error (''Expected that synchronous action '' @ name
                 @ '' handler will be a function, and it will returns new state'')), w))
     \<and> (truthy (initialState options) \<and> truthy (storeKey options) \<and> isFunction (handler options) \<longrightarrow>
          createAction mr fenv name (options\<lparr>handlers := hs\<rparr>) w
            = register mr (storeKey options)
                (syncReducer fenv name (handler options) (initialState options))
                (creator fenv name (action options) (async options)) w)
     \<and> (\<forall>s a w'. \<not> nullish a \<longrightarrow>
          syncReducer fenv name (handler options) (initialState options) s a w'
            = (if getProp a ''type'' = Str name
               then callFn fenv (handler options) [if s = Undefined then initialState options else s, a] w'
               else (Inr (if s = Undefined then initialState options else s), w')))"
  using assms by (simp add: createAction_def syncReducer_def Let_def)

theorem sync_ignores_handlers_witness:
  "createAction recordingMerge recordingFenv ''load''
      (syncOptions\<lparr>handlers := Obj [(''onWait'', Fn 1), (''onSuccess'', Fn 2), (''onFail'', Fn 3)]\<rparr>) []
     = (Inr (creator recordingFenv ''load'' (Fn 0) Undefined), [Merged (Str ''users'')])
   \<and> createAction recordingMerge recordingFenv ''load''
      (syncOptions\<lparr>handler := Undefined, handlers := Obj [(''onWait'', Fn 1), (''onSuccess'', Fn 2), (''onFail'', Fn 3)]\<rparr>) []
     = (Inl (Error ''Expected that synchronous action load handler will be a function, and it will returns new state''), [])"
proof -
  have a1: "\<not> truthy (async syncOptions)" and a2: "\<not> truthy (async (syncOptions\<lparr>handler := Undefined\<rparr>))"
    by (simp_all add: syncOptions_def)
  show ?thesis
    using sync_ignores_handlers [OF a1, of recordingMerge recordingFenv "''load''"
            "Obj [(''onWait'', Fn 1), (''onSuccess'', Fn 2), (''onFail'', Fn 3)]" "[]"]
          sync_ignores_handlers [OF a2, of recordingMerge recordingFenv "''load''"
            "Obj [(''onWait'', Fn 1), (''onSuccess'', Fn 2), (''onFail'', Fn 3)]" "[]"]
    by (simp add: syncOptions_def createAction_def register_def recordingMerge_def)
qed

section \<open>Action creators\<close>

text \<open>
  C3. A valid registration without \<open>async\<close> that the registry accepts returns the creator
  of the action, and this creator, called with arguments \<open>args\<close> on which the payload
  builder returns an object \<open>r\<close>, returns an object that has \<open>type\<close> equal to the
  registered name whatever \<open>type\<close> the builder returned, has no \<open>promise\<close>, and agrees
  with \<open>r\<close> on every other key: \<^verbatim>\<open>{type: name, ...P}\<close> with \<open>P\<close> the result \<open>r\<close> without
  its \<open>promise\<close> and \<open>type\<close> fields. The world after is the one the builder left.
\<close>

theorem sync_creator_shape:
  assumes valid: "truthy (initialState options)" "truthy (storeKey options)"
                 "\<not> truthy (async options)" "handler options = Fn h"
      and accept: "mr (storeKey options)
                     (syncReducer fenv name (handler options) (initialState options)) w0 = (Inr (), w1)"
      and builder: "action options = Fn b" "fenv b args w = (Inr r, w')"
      and obj: "\<not> nullish r" "distinct (map fst (ownProps r))"
  shows "createAction mr fenv name options w0
           = (Inr (creator fenv name (action options) (async options)), w1)
     \<and> (\<exists>res. creator fenv name (action options) (async options) args w = (Inr (Obj res), w')
           \<and> map_of res ''type'' = Some (Str name)
           \<and> map_of res ''promise'' = None
           \<and> (\<forall>k. k \<noteq> ''type'' \<and> k \<noteq> ''promise'' \<longrightarrow> map_of res k = map_of (ownProps r) k))"
proof -
  let ?c = "creator fenv name (action options) (async options)"
  let ?res = "enumerationOrder (spread [(''type'', Str name)]
                (filter (\<lambda>p. fst p \<noteq> ''promise'' \<and> fst p \<noteq> ''type'') (ownProps r)))"
  have "createAction mr fenv name options w0
          = register mr (storeKey options)
              (syncReducer fenv name (handler options) (initialState options)) ?c w0"
    using valid by (intro createAction_sync_valid) simp_all
  with accept have reg: "createAction mr fenv name options w0 = (Inr ?c, w1)"
    by (simp add: register_def)
  have run: "?c args w = (Inr (Obj ?res), w')"
    using valid(3) builder obj(1) by (simp add: creator_def)
  have look: "map_of ?res k
        = (if k = ''promise'' \<or> k = ''type'' then map_of [(''type'', Str name)] k
           else case map_of (ownProps r) k of Some v \<Rightarrow> Some v
                | None \<Rightarrow> map_of [(''type'', Str name)] k)" for k
    using obj(2) by (intro map_of_literal) simp_all
  have "map_of ?res ''type'' = Some (Str name)" "map_of ?res ''promise'' = None"
    "\<forall>k. k \<noteq> ''type'' \<and> k \<noteq> ''promise'' \<longrightarrow> map_of ?res k = map_of (ownProps r) k"
    by (simp_all add: look split: option.splits)
  with reg run show ?thesis
    by blast
qed

theorem sync_creator_shape_witness:
  "createAction recordingMerge recordingFenv ''load'' syncOptions []
     = (Inr (creator recordingFenv ''load'' (Fn 0) Undefined), [Merged (Str ''users'')])
   \<and> creator recordingFenv ''load'' (Fn 0) Undefined [Num 1] [Merged (Str ''users'')]
       = (Inr (Obj [(''type'', Str ''load''), (''id'', Num 7)]),
          [Merged (Str ''users''), Called 0 [Num 1]])"
proof -
  have v: "truthy (initialState syncOptions)" "truthy (storeKey syncOptions)"
      "\<not> truthy (async syncOptions)" "handler syncOptions = Fn 5"
    and b: "action syncOptions = Fn 0"
    by (simp_all add: syncOptions_def)
  have accept: "recordingMerge (storeKey syncOptions)
      (syncReducer recordingFenv ''load'' (handler syncOptions) (initialState syncOptions)) []
        = (Inr (), [Merged (Str ''users'')])"
    by (simp add: recordingMerge_def syncOptions_def)
  have run: "recordingFenv 0 [Num 1] [Merged (Str ''users'')]
      = (Inr (Obj [(''promise'', Fn 9), (''type'', Str ''mine''), (''id'', Num 7)]),
         [Merged (Str ''users''), Called 0 [Num 1]])"
    by (simp add: recordingFenv_def)
  have obj: "\<not> nullish (Obj [(''promise'', Fn 9), (''type'', Str ''mine''), (''id'', Num 7)])"
       "distinct (map fst (ownProps (Obj [(''promise'', Fn 9), (''type'', Str ''mine''), (''id'', Num 7)])))"
    by (simp_all add: nullish_def)
  have shape: "creator recordingFenv ''load'' (Fn 0) Undefined [Num 1] [Merged (Str ''users'')]
       = (Inr (Obj [(''type'', Str ''load''), (''id'', Num 7)]),
          [Merged (Str ''users''), Called 0 [Num 1]])"
    by (simp add: creator_def recordingFenv_def nullish_def spread_def enumerationOrder_def
          arrayIndex_def isDigit_def)
  show ?thesis
    using sync_creator_shape [where mr = recordingMerge and fenv = recordingFenv
            and name = "''load''" and options = syncOptions, OF v accept b run obj] shape
    by (simp add: syncOptions_def)
qed




section \<open>Batches\<close>

text \<open>
  C7. When \<open>createActions\<close> returns for a mapping \<open>ps\<close> of actions none of whose keys is
  \<open>__proto__\<close>, the mapping it returns has the keys of \<open>ps\<close>, in the same order; each
  entry \<open>(k, e)\<close> was registered by \<open>createAction\<close> under its own name with the options
  resolved from \<open>e\<close> and the globals, after the entries before it, and \<open>k\<close> is bound to
  the creator of that registration, which is determined by \<open>k\<close> and \<open>e\<close> alone. In the
  resolved options \<open>async\<close> is set exactly when the entry's \<open>async\<close> flag is set or its
  \<open>handlers\<close> are present; \<open>initialState\<close> and \<open>storeKey\<close> are the entry's own value when
  that value is truthy and the global otherwise, so the global both when the entry omits
  the field and when its own value is falsy; \<open>action\<close>, \<open>handler\<close> and \<open>handlers\<close> are the
  entry's.
\<close>

theorem createActions_batch:
  assumes run: "createActions mr fenv options w = (Inr res, w')"
      and obj: "actions options = Obj ps" "distinct (map fst ps)"
      and plain: "''__proto__'' \<notin> fst ` set ps"
  shows "map fst res = map fst ps
     \<and> (\<forall>pre k e post. ps = pre @ (k, e) # post \<longrightarrow>
          (\<exists>resp w1 w2.
              reduceEntries mr fenv (globalInitialState options) (globalStoreKey options) pre [] False w
                = (Inr resp, w1)
            \<and> \<not> nullish e
            \<and> createAction mr fenv k
                 (entryOptions (globalInitialState options) (globalStoreKey options) e) w1
                = (Inr (creator fenv k (getProp e ''action'')
                          (async (entryOptions (globalInitialState options) (globalStoreKey options) e))), w2)
            \<and> map_of res k
                = Some (creator fenv k (getProp e ''action'')
                          (async (entryOptions (globalInitialState options) (globalStoreKey options) e)))))
     \<and> (\<forall>e gi gk.
            truthy (async (entryOptions gi gk e))
              = (truthy (getProp e ''async'') \<or> truthy (getProp e ''handlers''))
          \<and> initialState (entryOptions gi gk e)
              = (if truthy (getProp e ''initialState'') then getProp e ''initialState'' else gi)
          \<and> storeKey (entryOptions gi gk e)
              = (if truthy (getProp e ''storeKey'') then getProp e ''storeKey'' else gk)
          \<and> action (entryOptions gi gk e) = getProp e ''action''
          \<and> handler (entryOptions gi gk e) = getProp e ''handler''
          \<and> handlers (entryOptions gi gk e) = getProp e ''handlers'')"
proof -
  let ?gi = "globalInitialState options" and ?gk = "globalStoreKey options"
  from run obj(1) have loop: "reduceEntries mr fenv ?gi ?gk ps [] False w = (Inr res, w')"
    by (simp add: createActions_def objectKeys_def nullish_def)
  have keys: "map fst res = map fst ps"
    using reduceEntries_keys [OF loop plain obj(2)] by simp
  have each: "\<exists>resp w1 w2.
              reduceEntries mr fenv ?gi ?gk pre [] False w = (Inr resp, w1)
            \<and> \<not> nullish e
            \<and> createAction mr fenv k (entryOptions ?gi ?gk e) w1
                = (Inr (creator fenv k (getProp e ''action'') (async (entryOptions ?gi ?gk e))), w2)
            \<and> map_of res k
                = Some (creator fenv k (getProp e ''action'') (async (entryOptions ?gi ?gk e)))"
    if "ps = pre @ (k, e) # post" for pre k e post
    using loop obj(2) plain unfolding that by (rule reduceEntries_split)
  have resolved: "truthy (async (entryOptions gi gk e))
              = (truthy (getProp e ''async'') \<or> truthy (getProp e ''handlers''))
          \<and> initialState (entryOptions gi gk e)
              = (if truthy (getProp e ''initialState'') then getProp e ''initialState'' else gi)
          \<and> storeKey (entryOptions gi gk e)
              = (if truthy (getProp e ''storeKey'') then getProp e ''storeKey'' else gk)
          \<and> action (entryOptions gi gk e) = getProp e ''action''
          \<and> handler (entryOptions gi gk e) = getProp e ''handler''
          \<and> handlers (entryOptions gi gk e) = getProp e ''handlers''" for e gi gk
    by (simp add: entryOptions_fields js_or_def)
  show ?thesis
    using keys each resolved by blast
qed

theorem createActions_batch_witness:
  "createActions recordingMerge recordingFenv batchOptions []
     = (Inr [(''load'', creator recordingFenv ''load'' (Fn 0) (Bool True)),
             (''reset'', creator recordingFenv ''reset'' (Fn 0) (Bool False))],
        [Merged (Str ''users''), Merged (Str ''ui'')])
   \<and> map fst [(''load'', creator recordingFenv ''load'' (Fn 0) (Bool True)),
              (''reset'', creator recordingFenv ''reset'' (Fn 0) (Bool False))]
     = [''load'', ''reset'']"
proof -
  have run: "createActions recordingMerge recordingFenv batchOptions []
     = (Inr [(''load'', creator recordingFenv ''load'' (Fn 0) (Bool True)),
             (''reset'', creator recordingFenv ''reset'' (Fn 0) (Bool False))],
        [Merged (Str ''users''), Merged (Str ''ui'')])"
    by (simp add: createActions_def batchOptions_def objectKeys_def nullish_def createAction_def
          entryOptions_def js_or_def checkAsyncHandlers_def register_def recordingMerge_def
          assignProp_def)
  have obj: "actions batchOptions = Obj
         [(''load'', Obj [(''action'', Fn 0),
                          (''handlers'', Obj [(''onWait'', Fn 1), (''onSuccess'', Fn 2), (''onFail'', Fn 3)])]),
          (''reset'', Obj [(''action'', Fn 0), (''handler'', Fn 5), (''storeKey'', Str ''ui''),
                           (''initialState'', Obj [(''n'', Num 0)])])]"
    by (simp add: batchOptions_def)
  have d: "distinct (map fst
         [(''load'', Obj [(''action'', Fn 0),
                          (''handlers'', Obj [(''onWait'', Fn 1), (''onSuccess'', Fn 2), (''onFail'', Fn 3)])]),
          (''reset'', Obj [(''action'', Fn 0), (''handler'', Fn 5), (''storeKey'', Str ''ui''),
                           (''initialState'', Obj [(''n'', Num 0)])])])"
    and np: "''__proto__'' \<notin> fst ` set
         [(''load'', Obj [(''action'', Fn 0),
                          (''handlers'', Obj [(''onWait'', Fn 1), (''onSuccess'', Fn 2), (''onFail'', Fn 3)])]),
          (''reset'', Obj [(''action'', Fn 0), (''handler'', Fn 5), (''storeKey'', Str ''ui''),
                           (''initialState'', Obj [(''n'', Num 0)])])]"
    by simp_all
  show ?thesis
    using createActions_batch [OF run obj d np, THEN conjunct1] run
    by simp
qed

text \<open>
  Both restrictions are needed, as \<open>protoBatch\<close> shows: its entry \<open>reset\<close> has a store
  key of its own, the empty string, and is registered under the global store key
  \<open>users\<close>; and the mapping returned has the one key \<open>reset\<close> where the input has the
  keys \<open>__proto__\<close> and \<open>reset\<close>.
\<close>

theorem createActions_batch_counterexample:
  "map fst (ownProps (actions protoBatch)) = [''__proto__'', ''reset'']
   \<and> createActions recordingMerge recordingFenv protoBatch []
       = (Inr [(''reset'', creator recordingFenv ''reset'' (Fn 0) (Bool False))],
          [Merged (Str ''users''), Merged (Str ''users'')])
   \<and> getProp (Obj [(''action'', Fn 0), (''handler'', Fn 5), (''storeKey'', Str [])]) ''storeKey''
       = Str []
   \<and> storeKey (entryOptions (globalInitialState protoBatch) (globalStoreKey protoBatch)
         (Obj [(''action'', Fn 0), (''handler'', Fn 5), (''storeKey'', Str [])]))
       = Str ''users''"
  by (simp add: createActions_def protoBatch_def objectKeys_def nullish_def createAction_def
        entryOptions_def js_or_def register_def recordingMerge_def assignProp_def)

text \<open>
  C9. The fallback to the globals is \<^verbatim>\<open>||\<close>: an entry whose own \<open>storeKey\<close> is the empty
  string, or any falsy value, is registered under the global store key, and an entry
  whose own \<open>initialState\<close> is falsy with the global initial state. A batch of one such
  entry is the registration of that entry with the resolved options; with a truthy
  global store key the registration does not raise the missing-store-key error, and
  with a truthy global initial state not the missing-initial-state error (unless the
  registry itself raises an error with that very message).
\<close>

theorem entry_falsy_uses_global:
  "(\<not> truthy (getProp e ''storeKey'') \<longrightarrow> storeKey (entryOptions gi gk e) = gk)
   \<and> (\<not> truthy (getProp e ''initialState'') \<longrightarrow> initialState (entryOptions gi gk e) = gi)
   \<and> createActions mr fenv \<lparr> actions = Obj [(k, e)], globalInitialState = gi, globalStoreKey = gk \<rparr> w
       = (if nullish e then (Inl TypeError, w)
          else case createAction mr fenv k (entryOptions gi gk e) w of
                 (Inl err, w1) \<Rightarrow> (Inl err, w1)
               | (Inr c, w1) \<Rightarrow> (Inr (if k = ''__proto__'' then [] else [(k, c)]), w1))
   \<and> (truthy gk
        \<and> (\<forall>key R w0. fst (mr key R w0) \<noteq> Inl (Error (''Store key at action '' @ k @ '' not defined'')))
       \<longrightarrow> fst (createAction mr fenv k (entryOptions gi gk e) w)
             \<noteq> Inl (Error (''Store key at action '' @ k @ '' not defined'')))
   \<and> (truthy gi
        \<and> (\<forall>key R w0. fst (mr key R w0) \<noteq> Inl (Error ''Initial state should not be null or undefined''))
       \<longrightarrow> fst (createAction mr fenv k (entryOptions gi gk e) w)
             \<noteq> Inl (Error ''Initial state should not be null or undefined''))"
proof -
  have batch: "createActions mr fenv \<lparr> actions = Obj [(k, e)], globalInitialState = gi, globalStoreKey = gk \<rparr> w
       = (if nullish e then (Inl TypeError, w)
          else case createAction mr fenv k (entryOptions gi gk e) w of
                 (Inl err, w1) \<Rightarrow> (Inl err, w1)
               | (Inr c, w1) \<Rightarrow> (Inr (if k = ''__proto__'' then [] else [(k, c)]), w1))"
    by (simp add: createActions_def objectKeys_def nullish_def assignProp_def
          split: prod.splits sum.splits)
  have reg: "fst (register mr key R c w) \<noteq> Inl (Error m)"
    if "\<forall>key R w0. fst (mr key R w0) \<noteq> Inl (Error m)" for key R c m
    using that [rule_format, of key R w]
    by (auto simp: register_def split: prod.splits sum.splits)
  have key: "fst (createAction mr fenv k (entryOptions gi gk e) w)
             \<noteq> Inl (Error (''Store key at action '' @ k @ '' not defined''))"
    if "truthy gk" "\<forall>key R w0. fst (mr key R w0) \<noteq> Inl (Error (''Store key at action '' @ k @ '' not defined''))"
    using that(1) reg [OF that(2)]
    by (auto simp: createAction_def entryOptions_fields js_or_def checkAsyncHandlers_def
          errMessage_def Let_def split: if_splits)
  have init: "fst (createAction mr fenv k (entryOptions gi gk e) w)
             \<noteq> Inl (Error ''Initial state should not be null or undefined'')"
    if "truthy gi" "\<forall>key R w0. fst (mr key R w0) \<noteq> Inl (Error ''Initial state should not be null or undefined'')"
    using that(1) reg [OF that(2)]
    by (auto simp: createAction_def entryOptions_fields js_or_def checkAsyncHandlers_def
          errMessage_def Let_def split: if_splits)
  show ?thesis
    using batch key init by (simp add: entryOptions_fields js_or_def)
qed

theorem entry_falsy_uses_global_witness:
  "\<not> truthy (getProp falsyEntry ''storeKey'') \<and> \<not> truthy (getProp falsyEntry ''initialState'')
   \<and> storeKey (entryOptions (Obj [(''list'', Arr [])]) (Str ''users'') falsyEntry) = Str ''users''
   \<and> initialState (entryOptions (Obj [(''list'', Arr [])]) (Str ''users'') falsyEntry)
        = Obj [(''list'', Arr [])]
   \<and> createActions recordingMerge recordingFenv
        \<lparr> actions = Obj [(''reset'', falsyEntry)], globalInitialState = Obj [(''list'', Arr [])],
          globalStoreKey = Str ''users'' \<rparr> []
       = (Inr [(''reset'', creator recordingFenv ''reset'' (Fn 0) (Bool False))],
          [Merged (Str ''users'')])
   \<and> fst (createAction recordingMerge recordingFenv ''reset''
             (entryOptions (Obj [(''list'', Arr [])]) (Str ''users'') falsyEntry) [])
        \<noteq> Inl (Error ''Store key at action reset not defined'')
   \<and> fst (createAction recordingMerge recordingFenv ''reset''
             (entryOptions (Obj [(''list'', Arr [])]) (Str ''users'') falsyEntry) [])
        \<noteq> Inl (Error ''Initial state should not be null or undefined'')"
  using entry_falsy_uses_global [where e = falsyEntry and gi = "Obj [(''list'', Arr [])]"
          and gk = "Str ''users''" and mr = recordingMerge and fenv = recordingFenv
          and k = "''reset''" and w = "[]"]
  by (simp add: falsyEntry_def recordingMerge_def createAction_def entryOptions_def js_or_def
        register_def nullish_def)

section \<open>createActions on an empty batch\<close>

text \<open>
  C1. The claim is that \<open>createActions\<close> with the empty mapping \<^verbatim>\<open>{}\<close> raises
  \<open>No any action passed\<close>. The guard of line 103 tests \<^verbatim>\<open>!Object.keys(actions)\<close>, and an
  array, empty or not, is truthy: on the empty mapping the call returns the empty mapping
  and leaves the world as it was.
\<close>

theorem createActions_empty_returns:
  "createActions mergeReducer fenv
     \<lparr> actions = Obj [], globalInitialState = gi, globalStoreKey = gk \<rparr> w = (Inr [], w)"
  by (simp add: createActions_def objectKeys_def nullish_def)

end
